theory Spec2Isabelle
  imports Complex_Main "HOL-Library.Log_Nat"
begin

section \<open>Python values as they arrive from the engine\<close>

text \<open>
  The adapter never looks at the engine's state as anything but the value that
  \<^verbatim>\<open>json.loads\<close> returns: dictionaries, lists, strings, numbers, booleans and
  \<^verbatim>\<open>None\<close>. A Python \<^verbatim>\<open>float\<close> is a finite double, an infinity or a
  not-a-number (\<^verbatim>\<open>json.loads\<close> accepts \<^verbatim>\<open>1e999\<close>, \<^verbatim>\<open>Infinity\<close> and
  \<^verbatim>\<open>NaN\<close>). A dictionary is an association list in which the first binding of a key
  is the one that counts.
\<close>

datatype pyfloat = Finite rat | PosInf | NegInf | NaN

datatype json =
    JNull
  | JBool bool
  | JInt int
  | JFloat pyfloat
  | JStr string
  | JArr "json list"
  | JObj "(string \<times> json) list"

text \<open>The exception classes that the two modules raise, catch or let through.\<close>

datatype py_error =
    RuntimeError
  | TypeError
  | ValueError
  | JSONDecodeError
  | OverflowError
  | AttributeError
  | IndexError
  | KeyError
  | URLError
  | SocketTimeout
  | OSError
  | RecursionError
  | UnicodeDecodeError
  | BrokenPipeError

type_synonym 'a result = "py_error + 'a"

definition bind_e :: "'a result \<Rightarrow> ('a \<Rightarrow> 'b result) \<Rightarrow> 'b result" where
  "bind_e m f = (case m of Inl e \<Rightarrow> Inl e | Inr v \<Rightarrow> f v)"

subsection \<open>Float arithmetic and comparison\<close>

text \<open>
  A Python \<^verbatim>\<open>float\<close> is an IEEE double. Every finite double is a rational, and
  \<^term>\<open>Finite r\<close> stands for a double when \<open>r\<close> is one, which is all that JSON parsing and
  the operations below produce. An operation computes the exact rational result and
  rounds it to the nearest double, ties to the even mantissa: 53 bits of mantissa, the
  smallest spacing \<open>2\<^sup>-\<^sup>1\<^sup>0\<^sup>7\<^sup>4\<close>, and an infinity from \<open>2\<^sup>1\<^sup>0\<^sup>2\<^sup>4\<close> on. The sign of a zero
  is not modelled.
\<close>

text \<open>The \<open>e\<close> with \<open>2\<^sup>e \<le> a < 2\<^sup>e\<^sup>+\<^sup>1\<close>, for a positive \<open>a\<close>.\<close>

definition flog2 :: "rat \<Rightarrow> int" where
  "flog2 a = (if 1 \<le> a then bitlen \<lfloor>a\<rfloor> - 1 else - bitlen (\<lceil>1 / a\<rceil> - 1))"

definition pow2 :: "int \<Rightarrow> rat" where
  "pow2 k = (if 0 \<le> k then 2 ^ nat k else 1 / 2 ^ nat (- k))"

definition round_half_even :: "rat \<Rightarrow> int" where
  "round_half_even x =
     (let f = \<lfloor>x\<rfloor>; d = x - of_int f
      in if d < 1 / 2 then f else if 1 / 2 < d then f + 1 else if even f then f else f + 1)"

definition round_double :: "rat \<Rightarrow> pyfloat" where
  "round_double r =
     (if r = 0 then Finite 0
      else
        let a = \<bar>r\<bar>;
            q = max (flog2 a - 52) (- 1074);
            v = of_int (round_half_even (a / pow2 q)) * pow2 q
        in if pow2 1024 \<le> v then (if 0 < r then PosInf else NegInf)
           else Finite (if 0 < r then v else - v))"

fun fneg :: "pyfloat \<Rightarrow> pyfloat" where
  "fneg (Finite a) = Finite (- a)"
| "fneg PosInf = NegInf"
| "fneg NegInf = PosInf"
| "fneg NaN = NaN"

text \<open>\<^verbatim>\<open>x + y\<close> on floats. Adding a zero is exact.\<close>

fun fadd :: "pyfloat \<Rightarrow> pyfloat \<Rightarrow> pyfloat" where
  "fadd (Finite a) (Finite b) =
     (if a = 0 then Finite b else if b = 0 then Finite a else round_double (a + b))"
| "fadd NaN y = NaN"
| "fadd x NaN = NaN"
| "fadd PosInf NegInf = NaN"
| "fadd NegInf PosInf = NaN"
| "fadd PosInf y = PosInf"
| "fadd NegInf y = NegInf"
| "fadd x PosInf = PosInf"
| "fadd x NegInf = NegInf"

definition fsub :: "pyfloat \<Rightarrow> pyfloat \<Rightarrow> pyfloat" where
  "fsub x y = fadd x (fneg y)"

text \<open>The double that the literal \<^verbatim>\<open>0.1\<close> denotes.\<close>

definition tenth :: rat where
  "tenth = 3602879701896397 / 36028797018963968"

text \<open>\<^verbatim>\<open>x * 0.1\<close> on a float.\<close>

fun ftenth :: "pyfloat \<Rightarrow> pyfloat" where
  "ftenth (Finite a) = round_double (a * tenth)"
| "ftenth x = x"

fun flt :: "pyfloat \<Rightarrow> pyfloat \<Rightarrow> bool" where
  "flt (Finite a) (Finite b) = (a < b)"
| "flt NaN y = False"
| "flt x NaN = False"
| "flt x NegInf = False"
| "flt PosInf y = False"
| "flt NegInf y = True"
| "flt x PosInf = True"

fun fle :: "pyfloat \<Rightarrow> pyfloat \<Rightarrow> bool" where
  "fle (Finite a) (Finite b) = (a \<le> b)"
| "fle NaN y = False"
| "fle x NaN = False"
| "fle NegInf y = True"
| "fle x PosInf = True"
| "fle x NegInf = False"
| "fle PosInf y = False"

subsection \<open>The operations of Python that the code applies to these values\<close>

text \<open>\<^verbatim>\<open>bool(x)\<close>, as in \<^verbatim>\<open>if not state\<close>.\<close>

fun truthy :: "json \<Rightarrow> bool" where
  "truthy JNull = False"
| "truthy (JBool b) = b"
| "truthy (JInt n) = (n \<noteq> 0)"
| "truthy (JFloat f) = (f \<noteq> Finite 0)"
| "truthy (JStr s) = (s \<noteq> [])"
| "truthy (JArr xs) = (xs \<noteq> [])"
| "truthy (JObj kvs) = (kvs \<noteq> [])"

text \<open>\<^verbatim>\<open>x.get(k, d)\<close>: only a dictionary has the method.\<close>

fun dict_get :: "json \<Rightarrow> string \<Rightarrow> json \<Rightarrow> json result" where
  "dict_get (JObj kvs) k d = Inr (case map_of kvs k of None \<Rightarrow> d | Some v \<Rightarrow> v)"
| "dict_get x k d = Inl AttributeError"

text \<open>\<^verbatim>\<open>len(x)\<close>\<close>

fun py_len :: "json \<Rightarrow> nat result" where
  "py_len (JArr xs) = Inr (length xs)"
| "py_len (JStr s) = Inr (length s)"
| "py_len (JObj kvs) = Inr (length kvs)"
| "py_len x = Inl TypeError"

text \<open>
  \<^verbatim>\<open>x[i]\<close> for an index \<open>i\<close> that is not negative. A dictionary that came from JSON
  has string keys only, so an integer subscript is a \<^verbatim>\<open>KeyError\<close>.
\<close>

fun py_item :: "json \<Rightarrow> nat \<Rightarrow> json result" where
  "py_item (JArr xs) i = (if i < length xs then Inr (xs ! i) else Inl IndexError)"
| "py_item (JStr s) i = (if i < length s then Inr (JStr [s ! i]) else Inl IndexError)"
| "py_item (JObj kvs) i = Inl KeyError"
| "py_item x i = Inl TypeError"

text \<open>\<^verbatim>\<open>for p in x\<close>: the items that the loop visits.\<close>

fun py_iter :: "json \<Rightarrow> json list result" where
  "py_iter (JArr xs) = Inr xs"
| "py_iter (JStr s) = Inr (map (\<lambda>c. JStr [c]) s)"
| "py_iter (JObj kvs) = Inr (map (\<lambda>kv. JStr (fst kv)) kvs)"
| "py_iter x = Inl TypeError"

text \<open>
  A value used as a number: an \<^verbatim>\<open>int\<close> of any size (booleans are integers in Python)
  or a \<^verbatim>\<open>float\<close>. Comparison and arithmetic are modelled on numbers only: a
  \<^verbatim>\<open>TypeError\<close> stands for every other operand (Python also orders two strings or two
  lists, which no engine sends as a life total, a turn or an action index).
\<close>

datatype pynum = PInt int | PFloat pyfloat

fun py_num :: "json \<Rightarrow> pynum result" where
  "py_num (JInt n) = Inr (PInt n)"
| "py_num (JBool b) = Inr (PInt (if b then 1 else 0))"
| "py_num (JFloat f) = Inr (PFloat f)"
| "py_num x = Inl TypeError"

text \<open>Python compares an \<^verbatim>\<open>int\<close> and a \<^verbatim>\<open>float\<close> by their exact values.\<close>

fun num_val :: "pynum \<Rightarrow> pyfloat" where
  "num_val (PInt n) = Finite (of_int n)"
| "num_val (PFloat f) = f"

definition num_lt :: "pynum \<Rightarrow> pynum \<Rightarrow> bool" where
  "num_lt x y = flt (num_val x) (num_val y)"

definition num_le :: "pynum \<Rightarrow> pynum \<Rightarrow> bool" where
  "num_le x y = fle (num_val x) (num_val y)"

text \<open>
  An \<^verbatim>\<open>int\<close> that meets a \<^verbatim>\<open>float\<close> in arithmetic is converted first, rounded to the
  nearest double: \<^verbatim>\<open>OverflowError\<close> when it is too large for one.
\<close>

fun to_float :: "pynum \<Rightarrow> pyfloat result" where
  "to_float (PInt n) =
     (case round_double (of_int n) of Finite v \<Rightarrow> Inr (Finite v) | other \<Rightarrow> Inl OverflowError)"
| "to_float (PFloat f) = Inr f"

text \<open>\<^verbatim>\<open>x - y\<close>: exact on two integers.\<close>

fun num_sub :: "pynum \<Rightarrow> pynum \<Rightarrow> pynum result" where
  "num_sub (PInt m) (PInt n) = Inr (PInt (m - n))"
| "num_sub x y =
     bind_e (to_float x) (\<lambda>a. bind_e (to_float y) (\<lambda>b. Inr (PFloat (fsub a b))))"

text \<open>\<^verbatim>\<open>x * 0.1\<close>\<close>

definition times_tenth :: "pynum \<Rightarrow> pyfloat result" where
  "times_tenth x = bind_e (to_float x) (\<lambda>a. Inr (ftenth a))"

text \<open>\<^verbatim>\<open>a < b\<close>, \<^verbatim>\<open>a <= b\<close> and \<^verbatim>\<open>a >= b\<close> on values.\<close>

definition py_lt :: "json \<Rightarrow> json \<Rightarrow> bool result" where
  "py_lt a b = bind_e (py_num a) (\<lambda>x. bind_e (py_num b) (\<lambda>y. Inr (num_lt x y)))"

definition py_le :: "json \<Rightarrow> json \<Rightarrow> bool result" where
  "py_le a b = bind_e (py_num a) (\<lambda>x. bind_e (py_num b) (\<lambda>y. Inr (num_le x y)))"

definition py_ge :: "json \<Rightarrow> json \<Rightarrow> bool result" where
  "py_ge a b = bind_e (py_num a) (\<lambda>x. bind_e (py_num b) (\<lambda>y. Inr (num_le y x)))"

text \<open>\<^verbatim>\<open>(a - b) * 0.1\<close> on values.\<close>

definition tenth_of_difference :: "json \<Rightarrow> json \<Rightarrow> pyfloat result" where
  "tenth_of_difference a b =
     bind_e (py_num a) (\<lambda>x. bind_e (py_num b) (\<lambda>y. bind_e (num_sub x y) times_tenth))"

section \<open>The environment wrapper: reward and termination\<close>

text \<open>The default of \<^verbatim>\<open>state.get('players', [{}, {}])\<close>.\<close>

definition two_empty_players :: json where
  "two_empty_players = JArr [JObj [], JObj []]"

text \<open>\<^verbatim>\<open>players[i].get('life', 20)\<close>\<close>

definition life_at :: "json \<Rightarrow> nat \<Rightarrow> json result" where
  "life_at players i =
     bind_e (py_item players i) (\<lambda>p. dict_get p ''life'' (JInt 20))"

text \<open>
  The body of the \<^verbatim>\<open>if len(prev_players) >= 2 and len(curr_players) >= 2\<close> block of
  \<^verbatim>\<open>_calculate_reward\<close>, on the four life totals, statement by statement.
\<close>

definition life_reward :: "json \<Rightarrow> json \<Rightarrow> json \<Rightarrow> json \<Rightarrow> pyfloat result" where
  "life_reward prev_p0_life curr_p0_life prev_p1_life curr_p1_life =
     bind_e (py_lt curr_p1_life prev_p1_life) (\<lambda>opponent_lost.
     bind_e (if opponent_lost
             then bind_e (tenth_of_difference prev_p1_life curr_p1_life)
                    (\<lambda>x. Inr (fadd (Finite 0) x))
             else Inr (Finite 0)) (\<lambda>reward.
     bind_e (py_lt curr_p0_life prev_p0_life) (\<lambda>self_lost.
     bind_e (if self_lost
             then bind_e (tenth_of_difference prev_p0_life curr_p0_life)
                    (\<lambda>x. Inr (fsub reward x))
             else Inr reward) (\<lambda>reward.
     bind_e (py_le curr_p1_life (JInt 0)) (\<lambda>won.
     if won then Inr (fadd reward (Finite 10))
     else
       bind_e (py_le curr_p0_life (JInt 0)) (\<lambda>lost.
       Inr (if lost then fsub reward (Finite 10) else reward)))))))"

text \<open>\<^verbatim>\<open>ForgeEnv._calculate_reward\<close>; \<^verbatim>\<open>None\<close> is \<^const>\<open>JNull\<close>.\<close>

definition calculate_reward :: "json \<Rightarrow> json \<Rightarrow> pyfloat result" where
  "calculate_reward previous_state current_state =
     (if \<not> truthy previous_state \<or> \<not> truthy current_state then Inr (Finite 0)
      else
        bind_e (dict_get previous_state ''players'' two_empty_players) (\<lambda>prev_players.
        bind_e (dict_get current_state ''players'' two_empty_players) (\<lambda>curr_players.
        bind_e (py_len prev_players) (\<lambda>np.
        if \<not> 2 \<le> np then Inr (Finite 0)
        else
          bind_e (py_len curr_players) (\<lambda>nc.
          if \<not> 2 \<le> nc then Inr (Finite 0)
          else
            bind_e (life_at prev_players 0) (\<lambda>prev_p0_life.
            bind_e (life_at curr_players 0) (\<lambda>curr_p0_life.
            bind_e (life_at prev_players 1) (\<lambda>prev_p1_life.
            bind_e (life_at curr_players 1) (\<lambda>curr_p1_life.
            life_reward prev_p0_life curr_p0_life prev_p1_life curr_p1_life)))))))))"

text \<open>The loop of \<^verbatim>\<open>_is_terminated\<close> over the players.\<close>

fun any_dead :: "json list \<Rightarrow> bool result" where
  "any_dead [] = Inr False"
| "any_dead (player # rest) =
     bind_e (dict_get player ''life'' (JInt 20)) (\<lambda>life.
     bind_e (py_le life (JInt 0)) (\<lambda>d.
     if d then Inr True else any_dead rest))"

text \<open>\<^verbatim>\<open>ForgeEnv._is_terminated\<close>, on \<^verbatim>\<open>self.current_state\<close>.\<close>

definition is_terminated :: "json \<Rightarrow> bool result" where
  "is_terminated current_state =
     (if \<not> truthy current_state then Inr True
      else
        bind_e (dict_get current_state ''players'' (JArr [])) (\<lambda>players.
        bind_e (py_iter players) any_dead))"

section \<open>The environment wrapper: the engine process\<close>

text \<open>
  The engine is a child process behind a pipe. Each line that the wrapper writes is one
  of five commands; \<^verbatim>\<open>play_action N\<close> carries the index as it is formatted. A write
  to the pipe succeeds or raises (\<^verbatim>\<open>BrokenPipeError\<close> once the engine has exited). A
  read ends in one of three ways: \<^verbatim>\<open>_read_response\<close> itself raises (a
  \<^verbatim>\<open>UnicodeDecodeError\<close> of \<^verbatim>\<open>readline\<close>); or it returns a text on which
  \<^verbatim>\<open>json.loads\<close> raises (\<^verbatim>\<open>JSONDecodeError\<close> for a text that is not JSON, the empty
  text after the timeout included; \<^verbatim>\<open>RecursionError\<close> for brackets nested too deep;
  \<^verbatim>\<open>ValueError\<close> for an integer of too many digits); or \<^verbatim>\<open>json.loads\<close> returns a
  value.
\<close>

datatype command = PlayAction json | PassPriority | GetState | PossibleActions | Concede

datatype reading = ReadRaises py_error | LoadsRaises py_error | Loaded json

text \<open>
  The engine: what the write of the \<open>k\<close>-th line does, counted over the lines written
  so far, and what the \<open>n\<close>-th read yields.
\<close>

record engine =
  on_write :: "nat \<Rightarrow> py_error option"
  on_read :: "nat \<Rightarrow> reading"

text \<open>
  The fields of \<^verbatim>\<open>ForgeEnv\<close> that the methods below read or write, and two ghost
  fields for the pipe: the lines written so far and the number of responses read so
  far. The paths of the JAR and of Java, and the Gymnasium spaces, are not part of the
  model.
\<close>

record env =
  player1_is_human :: json
  player2_is_human :: json
  max_turns :: json
  render_mode :: json
  process :: bool
  current_state :: json
  current_actions :: json
  episode_turns :: json
  game_over :: bool
  sent :: "command list"
  nread :: nat

text \<open>
  \<^verbatim>\<open>ForgeEnv.__init__\<close>, called with keyword arguments. A keyword that is not a
  parameter of the method is a \<^verbatim>\<open>TypeError\<close> of the call.
\<close>

definition init_parameters :: "string list" where
  "init_parameters =
     [''jar_path'', ''java_home'', ''player1_is_human'', ''player2_is_human'',
      ''max_turns'', ''render_mode'']"

definition kwarg :: "(string \<times> json) list \<Rightarrow> string \<Rightarrow> json \<Rightarrow> json" where
  "kwarg kwargs k d = (case map_of kwargs k of None \<Rightarrow> d | Some v \<Rightarrow> v)"

definition init_env :: "(string \<times> json) list \<Rightarrow> env" where
  "init_env kwargs =
     \<lparr> player1_is_human = kwarg kwargs ''player1_is_human'' (JBool True),
       player2_is_human = kwarg kwargs ''player2_is_human'' (JBool False),
       max_turns = kwarg kwargs ''max_turns'' (JInt 100),
       render_mode = kwarg kwargs ''render_mode'' JNull,
       process = False,
       current_state = JNull,
       current_actions = JArr [],
       episode_turns = JInt 0,
       game_over = False,
       sent = [],
       nread = 0 \<rparr>"

definition ForgeEnv_init :: "(string \<times> json) list \<Rightarrow> env result" where
  "ForgeEnv_init kwargs =
     (if \<not> list_all (\<lambda>kv. fst kv \<in> set init_parameters) kwargs then Inl TypeError
      else Inr (init_env kwargs))"

text \<open>
  \<^verbatim>\<open>_send_command\<close>: nothing is written without a process. \<^verbatim>\<open>_read_response\<close>
  followed by \<^verbatim>\<open>json.loads\<close>: without a process the text is empty.
\<close>

definition send_command :: "engine \<Rightarrow> env \<Rightarrow> command \<Rightarrow> unit result \<times> env" where
  "send_command eng e c =
     (if process e then
        (case on_write eng (length (sent e)) of
           None \<Rightarrow> (Inr (), e\<lparr>sent := sent e @ [c]\<rparr>)
         | Some err \<Rightarrow> (Inl err, e))
      else (Inr (), e))"

definition read_response :: "engine \<Rightarrow> env \<Rightarrow> reading \<times> env" where
  "read_response eng e =
     (if process e then (on_read eng (nread e), e\<lparr>nread := Suc (nread e)\<rparr>)
      else (LoadsRaises JSONDecodeError, e))"

text \<open>
  \<^verbatim>\<open>_update_state\<close>, in its two halves. The \<^verbatim>\<open>try\<close> holds \<^verbatim>\<open>json.loads\<close> and the
  \<^verbatim>\<open>.get\<close> after it, and only \<^verbatim>\<open>json.JSONDecodeError\<close> is caught: every other
  exception of the write, of the read or of \<^verbatim>\<open>json.loads\<close> leaves the method, and so
  does the \<^verbatim>\<open>AttributeError\<close> of \<^verbatim>\<open>.get\<close> on a value that is not a dictionary, after
  the assignment to \<^verbatim>\<open>self.current_state\<close>.
\<close>

definition update_game_state :: "engine \<Rightarrow> env \<Rightarrow> unit result \<times> env" where
  "update_game_state eng e0 =
     (case send_command eng e0 GetState of
        (Inl err, e1) \<Rightarrow> (Inl err, e1)
      | (Inr u, e1) \<Rightarrow>
          (let (state_response, e2) = read_response eng e1
           in case state_response of
                ReadRaises err \<Rightarrow> (Inl err, e2)
              | LoadsRaises err \<Rightarrow>
                  (if err = JSONDecodeError then (Inr (), e2\<lparr>current_state := JObj []\<rparr>)
                   else (Inl err, e2))
              | Loaded j \<Rightarrow>
                  (let e3 = e2\<lparr>current_state := j\<rparr>
                   in case dict_get j ''turn'' (JInt 0) of
                        Inl err \<Rightarrow> (Inl err, e3)
                      | Inr t \<Rightarrow> (Inr (), e3\<lparr>episode_turns := t\<rparr>))))"

definition update_actions :: "engine \<Rightarrow> env \<Rightarrow> unit result \<times> env" where
  "update_actions eng e0 =
     (case send_command eng e0 PossibleActions of
        (Inl err, e1) \<Rightarrow> (Inl err, e1)
      | (Inr u, e1) \<Rightarrow>
          (let (actions_response, e2) = read_response eng e1
           in case actions_response of
                ReadRaises err \<Rightarrow> (Inl err, e2)
              | LoadsRaises err \<Rightarrow>
                  (if err = JSONDecodeError then (Inr (), e2\<lparr>current_actions := JArr []\<rparr>)
                   else (Inl err, e2))
              | Loaded actions_data \<Rightarrow>
                  (case dict_get actions_data ''actions'' (JArr []) of
                     Inl err \<Rightarrow> (Inl err, e2)
                   | Inr acts \<Rightarrow> (Inr (), e2\<lparr>current_actions := acts\<rparr>))))"

definition update_state :: "engine \<Rightarrow> env \<Rightarrow> unit result \<times> env" where
  "update_state eng e0 =
     (case update_game_state eng e0 of
        (Inl err, e1) \<Rightarrow> (Inl err, e1)
      | (Inr u, e1) \<Rightarrow> update_actions eng e1)"

subsection \<open>Observations\<close>

record observation =
  obs_turn :: int
  obs_phase :: int
  obs_active_player :: json
  obs_stack_size :: int
  player_0_life :: int
  player_1_life :: int
  player_0_hand_size :: int
  player_1_hand_size :: int

definition default_observation :: observation where
  "default_observation =
     \<lparr> obs_turn = 0, obs_phase = 0, obs_active_player = JInt 0, obs_stack_size = 0,
       player_0_life = 20, player_1_life = 20,
       player_0_hand_size = 0, player_1_hand_size = 0 \<rparr>"

definition phase_map :: "(string \<times> int) list" where
  "phase_map =
     [(''UNTAP'', 0), (''UPKEEP'', 1), (''DRAW'', 2),
      (''MAIN1'', 3), (''COMBAT_BEGIN'', 4), (''COMBAT_DECLARE_ATTACKERS'', 5),
      (''COMBAT_DECLARE_BLOCKERS'', 6), (''COMBAT_FIRST_STRIKE_DAMAGE'', 7),
      (''COMBAT_DAMAGE'', 8), (''COMBAT_END'', 9), (''MAIN2'', 3), (''END_OF_TURN'', 1),
      (''CLEANUP'', 1)]"

text \<open>\<^verbatim>\<open>phase_map.get(x, 0)\<close>: a list or a dictionary is not hashable.\<close>

fun phase_code :: "json \<Rightarrow> int result" where
  "phase_code (JStr s) = Inr (case map_of phase_map s of None \<Rightarrow> 0 | Some c \<Rightarrow> c)"
| "phase_code (JArr xs) = Inl TypeError"
| "phase_code (JObj kvs) = Inl TypeError"
| "phase_code x = Inr 0"

text \<open>
  \<^verbatim>\<open>_get_observation\<close>. The conversion \<^verbatim>\<open>np.array([x], dtype=np.int32)\<close> of a value
  read from the state belongs to NumPy and is the parameter \<open>int32\<close>; the default
  observation is built from literals.
\<close>

definition hand_size_at :: "json \<Rightarrow> nat \<Rightarrow> nat result" where
  "hand_size_at players i =
     bind_e (py_item players i) (\<lambda>p.
     bind_e (dict_get p ''hand'' (JArr [])) py_len)"

definition get_observation :: "(json \<Rightarrow> int result) \<Rightarrow> json \<Rightarrow> observation result" where
  "get_observation int32 cs =
     (if \<not> truthy cs then Inr default_observation
      else
        bind_e (dict_get cs ''players'' two_empty_players) (\<lambda>players.
        bind_e (bind_e (dict_get cs ''turn'' (JInt 0)) int32) (\<lambda>t.
        bind_e (bind_e (dict_get cs ''phase'' (JStr ''UNTAP'')) phase_code) (\<lambda>ph.
        bind_e (dict_get cs ''activePlayerId'' (JInt 0)) (\<lambda>ap.
        bind_e (bind_e (dict_get cs ''stack_size'' (JInt 0)) int32) (\<lambda>st.
        bind_e (bind_e (py_len players) (\<lambda>n.
                  if 0 < n then bind_e (life_at players 0) int32 else int32 (JInt 20))) (\<lambda>l0.
        bind_e (bind_e (py_len players) (\<lambda>n.
                  if 1 < n then bind_e (life_at players 1) int32 else int32 (JInt 20))) (\<lambda>l1.
        bind_e (bind_e (py_len players) (\<lambda>n.
                  if 0 < n then bind_e (hand_size_at players 0) (\<lambda>k. int32 (JInt (int k)))
                  else int32 (JInt 0))) (\<lambda>h0.
        bind_e (bind_e (py_len players) (\<lambda>n.
                  if 1 < n then bind_e (hand_size_at players 1) (\<lambda>k. int32 (JInt (int k)))
                  else int32 (JInt 0))) (\<lambda>h1.
        Inr \<lparr> obs_turn = t, obs_phase = ph, obs_active_player = ap, obs_stack_size = st,
              player_0_life = l0, player_1_life = l1,
              player_0_hand_size = h0, player_1_hand_size = h1 \<rparr>))))))))))"

subsection \<open>Reset, step and close\<close>

text \<open>\<^verbatim>\<open>_close_process\<close>: an exception of the \<^verbatim>\<open>concede\<close> line is swallowed.\<close>

definition close_process :: "engine \<Rightarrow> env \<Rightarrow> env" where
  "close_process eng e =
     (if process e then (snd (send_command eng e Concede))\<lparr>process := False\<rparr> else e)"

text \<open>
  \<^verbatim>\<open>reset\<close>. Whether \<^verbatim>\<open>subprocess.Popen\<close> starts the engine is the parameter
  \<open>started\<close>; when it does not, the exception leaves \<^verbatim>\<open>self.process\<close> as it is.
\<close>

record reset_result =
  first_observation :: observation
  first_state :: json
  first_actions :: json

definition ForgeEnv_reset ::
  "(json \<Rightarrow> int result) \<Rightarrow> engine \<Rightarrow> bool \<Rightarrow> env \<Rightarrow> reset_result result \<times> env" where
  "ForgeEnv_reset int32 eng started e0 =
     (let e1 = (if process e0 then close_process eng e0 else e0)
      in if \<not> started then (Inl OSError, e1)
         else
           (let e2 = e1\<lparr>process := True, episode_turns := JInt 0, game_over := False\<rparr>
            in case update_state eng e2 of
                 (Inl err, e3) \<Rightarrow> (Inl err, e3)
               | (Inr u, e3) \<Rightarrow>
                   (case get_observation int32 (current_state e3) of
                      Inl err \<Rightarrow> (Inl err, e3)
                    | Inr obs \<Rightarrow>
                        (Inr \<lparr> first_observation = obs, first_state = current_state e3,
                               first_actions = current_actions e3 \<rparr>, e3))))"

text \<open>\<^verbatim>\<open>x.copy()\<close>: dictionaries and lists have the method.\<close>

fun py_copy :: "json \<Rightarrow> json result" where
  "py_copy (JObj kvs) = Inr (JObj kvs)"
| "py_copy (JArr xs) = Inr (JArr xs)"
| "py_copy x = Inl AttributeError"

record step_result =
  observation :: observation
  reward :: pyfloat
  terminated :: bool
  truncated :: bool
  info_state :: json
  info_actions :: json
  action_taken :: int

text \<open>The command that \<^verbatim>\<open>step\<close> writes for an action.\<close>

definition step_command :: "json \<Rightarrow> int \<Rightarrow> command result" where
  "step_command actions action =
     bind_e (py_len actions) (\<lambda>n.
       Inr (if action < int n then PlayAction (JInt action) else PassPriority))"

text \<open>What \<^verbatim>\<open>step\<close> computes once the state has been updated.\<close>

definition step_outcome ::
  "(json \<Rightarrow> int result) \<Rightarrow> json \<Rightarrow> env \<Rightarrow> int \<Rightarrow> step_result result" where
  "step_outcome int32 previous_state e action =
     bind_e (calculate_reward previous_state (current_state e)) (\<lambda>r.
     bind_e (is_terminated (current_state e)) (\<lambda>term.
     bind_e (py_ge (episode_turns e) (max_turns e)) (\<lambda>trunc.
     bind_e (get_observation int32 (current_state e)) (\<lambda>obs.
     Inr \<lparr> observation = obs, reward = r, terminated = term, truncated = trunc,
           info_state = current_state e, info_actions = current_actions e,
           action_taken = action \<rparr>))))"

text \<open>\<^verbatim>\<open>ForgeEnv.step\<close>\<close>

definition ForgeEnv_step ::
  "(json \<Rightarrow> int result) \<Rightarrow> engine \<Rightarrow> env \<Rightarrow> int \<Rightarrow> step_result result \<times> env" where
  "ForgeEnv_step int32 eng e0 action =
     (if \<not> process e0 then (Inl RuntimeError, e0)
      else
        case step_command (current_actions e0) action of
          Inl err \<Rightarrow> (Inl err, e0)
        | Inr command \<Rightarrow>
            (case send_command eng e0 command of
               (Inl err, e1) \<Rightarrow> (Inl err, e1)
             | (Inr u, e1) \<Rightarrow>
                 (case (if truthy (current_state e1) then py_copy (current_state e1)
                        else Inr JNull) of
                    Inl err \<Rightarrow> (Inl err, e1)
                  | Inr previous_state \<Rightarrow>
                      (case update_state eng e1 of
                         (Inl err, e2) \<Rightarrow> (Inl err, e2)
                       | (Inr v, e2) \<Rightarrow> (step_outcome int32 previous_state e2 action, e2)))))"


section \<open>The agent loop over HTTP\<close>

text \<open>
  What \<^verbatim>\<open>urllib.request.urlopen\<close> followed by \<^verbatim>\<open>json.load\<close> does: it raises, or it
  yields a body that parses as JSON or does not (the \<^verbatim>\<open>JSONDecodeError\<close> of
  \<^verbatim>\<open>json.load\<close>; any other exception of \<^verbatim>\<open>json.load\<close> counts as raised).
  \<^verbatim>\<open>HTTPError\<close> is a \<^verbatim>\<open>URLError\<close>.
\<close>

datatype reply = Unparseable | Parsed json

datatype transport = Raises py_error | Body reply

text \<open>\<^verbatim>\<open>forge_request\<close>: only \<^verbatim>\<open>URLError\<close> is caught, and gives \<^verbatim>\<open>None\<close>.\<close>

fun forge_request :: "transport \<Rightarrow> json result" where
  "forge_request (Raises err) = (if err = URLError then Inr JNull else Inl err)"
| "forge_request (Body Unparseable) = Inl JSONDecodeError"
| "forge_request (Body (Parsed j)) = Inr j"

subsection \<open>The remote policy\<close>

text \<open>
  The part of \<^verbatim>\<open>policy_request\<close> before the \<^verbatim>\<open>try\<close> builds the payload from the game
  state. The payload goes to the policy server, whose answer is an input of the model,
  so only the exceptions of that part are modelled: \<^verbatim>\<open>.get\<close> on a value that is not a
  dictionary, and a loop over a value that is not iterable.
\<close>

definition build_payload :: "json \<Rightarrow> unit result" where
  "build_payload game_state =
     bind_e (dict_get game_state ''hand'' (JArr [])) (\<lambda>raw_hand.
     bind_e (py_iter raw_hand) (\<lambda>cards.
     bind_e (dict_get game_state ''possible_actions'' (JObj [])) (\<lambda>pa.
     bind_e (dict_get pa ''actions'' (JArr [])) (\<lambda>acts.
     bind_e (py_iter acts) (\<lambda>entries.
     if list_all (\<lambda>a. case a of JObj kvs \<Rightarrow> True | _ \<Rightarrow> False) entries then Inr ()
     else Inl AttributeError)))))"

text \<open>
  \<^verbatim>\<open>int(x)\<close> for a value that is neither a dictionary nor an integer. How Python
  reads an integer out of a string is the parameter \<open>int_of_str\<close> (\<open>None\<close> is the
  \<^verbatim>\<open>ValueError\<close>).
\<close>

fun py_int :: "(string \<Rightarrow> int option) \<Rightarrow> json \<Rightarrow> json result" where
  "py_int int_of_str (JInt n) = Inr (JInt n)"
| "py_int int_of_str (JBool b) = Inr (JInt (if b then 1 else 0))"
| "py_int int_of_str (JFloat (Finite r)) =
     Inr (JInt (if 0 \<le> r then \<lfloor>r\<rfloor> else \<lceil>r\<rceil>))"
| "py_int int_of_str (JFloat NaN) = Inl ValueError"
| "py_int int_of_str (JFloat PosInf) = Inl OverflowError"
| "py_int int_of_str (JFloat NegInf) = Inl OverflowError"
| "py_int int_of_str (JStr s) =
     (case int_of_str s of None \<Rightarrow> Inl ValueError | Some n \<Rightarrow> Inr (JInt n))"
| "py_int int_of_str x = Inl TypeError"

text \<open>The body of the \<^verbatim>\<open>try\<close>. A Python \<^verbatim>\<open>bool\<close> is an instance of \<^verbatim>\<open>int\<close>.\<close>

fun policy_try :: "(string \<Rightarrow> int option) \<Rightarrow> transport \<Rightarrow> json result" where
  "policy_try int_of_str (Raises err) = Inl err"
| "policy_try int_of_str (Body Unparseable) = Inl JSONDecodeError"
| "policy_try int_of_str (Body (Parsed (JObj kvs))) =
     (let idx = (case map_of kvs ''action_index'' of
                   Some v \<Rightarrow> v
                 | None \<Rightarrow> (case map_of kvs ''index'' of Some v \<Rightarrow> v | None \<Rightarrow> JInt 0))
      in if idx = JNull then Inr (JInt 0) else Inr idx)"
| "policy_try int_of_str (Body (Parsed (JInt n))) = Inr (JInt n)"
| "policy_try int_of_str (Body (Parsed (JBool b))) = Inr (JBool b)"
| "policy_try int_of_str (Body (Parsed x)) = py_int int_of_str x"

text \<open>
  The \<^verbatim>\<open>except\<close> clauses: \<^verbatim>\<open>URLError\<close>, \<^verbatim>\<open>socket.timeout\<close> and
  \<^verbatim>\<open>(ValueError, TypeError)\<close>; \<^verbatim>\<open>JSONDecodeError\<close> is a \<^verbatim>\<open>ValueError\<close>.
\<close>

definition policy_caught :: "py_error \<Rightarrow> bool" where
  "policy_caught err =
     (err = URLError \<or> err = SocketTimeout \<or> err = ValueError \<or> err = JSONDecodeError
      \<or> err = TypeError)"

definition policy_request :: "(string \<Rightarrow> int option) \<Rightarrow> json \<Rightarrow> transport \<Rightarrow> json result" where
  "policy_request int_of_str game_state response =
     bind_e (build_payload game_state) (\<lambda>u.
       case policy_try int_of_str response of
         Inl err \<Rightarrow> (if policy_caught err then Inr (JInt 0) else Inl err)
       | Inr idx \<Rightarrow> Inr idx)"

subsection \<open>The loop of \<^verbatim>\<open>run_game\<close>\<close>

datatype log_entry =
    TurnHeader json
  | NoActionsAvailable
  | PassLog json
  | ActionLog json json json
  | StepFailed

text \<open>
  The local variables of \<^verbatim>\<open>run_game\<close>, with two ghost fields: the bodies posted to
  \<^verbatim>\<open>/api/step\<close> and the number of calls of the decision source so far.
\<close>

record game =
  state :: json
  turn :: json
  step :: nat
  game_log :: "log_entry list"
  posted :: "command list"
  asked :: nat

datatype flow = Raise py_error game | Break game | Continue game

definition max_steps :: nat where
  "max_steps = 500"

text \<open>
  \<^verbatim>\<open>a == b\<close>, exact on numbers, strings and \<^verbatim>\<open>None\<close>, which is what a turn and an
  action type are.
\<close>

definition py_eq :: "json \<Rightarrow> json \<Rightarrow> bool" where
  "py_eq a b =
     (case (py_num a, py_num b) of
        (Inr x, Inr y) \<Rightarrow> num_val x = num_val y \<and> num_val x \<noteq> NaN
      | _ \<Rightarrow> a = b)"

text \<open>\<^verbatim>\<open>if action_index < 0 or action_index >= action_count: action_index = 0\<close>\<close>

definition validate_index :: "json \<Rightarrow> nat \<Rightarrow> json result" where
  "validate_index action_index action_count =
     bind_e (py_num action_index) (\<lambda>i.
       if num_lt i (PInt 0) \<or> num_le (PInt (int action_count)) i then Inr (JInt 0)
       else Inr action_index)"

text \<open>\<^verbatim>\<open>actions[action_index]\<close>, for an index that passed the check above.\<close>

fun choose_action :: "json \<Rightarrow> json \<Rightarrow> json result" where
  "choose_action actions (JInt i) = py_item actions (nat i)"
| "choose_action actions (JBool b) = py_item actions (if b then 1 else 0)"
| "choose_action (JObj kvs) idx = Inl KeyError"
| "choose_action actions idx = Inl TypeError"

text \<open>\<^verbatim>\<open>state.get("possible_actions", {}).get("actions", [])\<close>\<close>

definition possible_actions :: "json \<Rightarrow> json result" where
  "possible_actions st =
     bind_e (dict_get st ''possible_actions'' (JObj [])) (\<lambda>pa. dict_get pa ''actions'' (JArr []))"

text \<open>An exception inside the loop leaves \<^verbatim>\<open>run_game\<close> with the locals as they are.\<close>

definition try_e :: "'a result \<Rightarrow> game \<Rightarrow> ('a \<Rightarrow> flow) \<Rightarrow> flow" where
  "try_e m g f = (case m of Inl err \<Rightarrow> Raise err g | Inr v \<Rightarrow> f v)"

text \<open>
  One pass through the body of the \<^verbatim>\<open>while\<close> loop, in two parts: up to the check of
  the number of actions, and from the call of the decision source on. The decision
  source is a function of the number of the call and of the state: the remote policy,
  the operator, or any other. The engine's answers to the HTTP requests are numbered
  from the reset, which is request 0.
\<close>

definition act ::
  "(nat \<Rightarrow> json \<Rightarrow> json result) \<Rightarrow> (nat \<Rightarrow> transport) \<Rightarrow> json \<Rightarrow> json \<Rightarrow> nat \<Rightarrow> game
     \<Rightarrow> flow" where
  "act decide forge phase actions action_count g2 =
     (let g3 = g2\<lparr>asked := Suc (asked g2)\<rparr>
      in try_e (decide (asked g2) (state g2)) g3 (\<lambda>answer.
         try_e (validate_index answer action_count) g3 (\<lambda>action_index.
         try_e (choose_action actions action_index) g3 (\<lambda>chosen_action.
         try_e (dict_get chosen_action ''type'' (JStr ''unknown'')) g3 (\<lambda>action_type.
         try_e (dict_get chosen_action ''card_name'' (JStr [])) g3 (\<lambda>card_name.
         let log_entry = (if py_eq action_type (JStr ''pass_priority'') then PassLog phase
                          else ActionLog phase action_type card_name);
             g4 = g3\<lparr>game_log := game_log g3 @ [log_entry],
                     posted := posted g3 @ [PlayAction action_index]\<rparr>
         in try_e (forge_request (forge (length (posted g4)))) g4 (\<lambda>s.
            let g5 = g4\<lparr>state := s\<rparr>
            in if \<not> truthy s then Break (g5\<lparr>game_log := game_log g5 @ [StepFailed]\<rparr>)
               else Continue g5)))))))"

definition loop_body ::
  "(nat \<Rightarrow> json \<Rightarrow> json result) \<Rightarrow> (nat \<Rightarrow> transport) \<Rightarrow> game \<Rightarrow> flow" where
  "loop_body decide forge g0 =
     (let g1 = g0\<lparr>step := Suc (step g0)\<rparr>
      in try_e (dict_get (state g1) ''turn'' (JInt 0)) g1 (\<lambda>current_turn.
         try_e (dict_get (state g1) ''phase'' (JStr ''?'')) g1 (\<lambda>phase.
         let g2 = (if \<not> py_eq current_turn (turn g1)
                   then g1\<lparr>turn := current_turn,
                           game_log := game_log g1 @ [TurnHeader current_turn]\<rparr>
                   else g1)
         in try_e (possible_actions (state g2)) g2 (\<lambda>actions.
            try_e (py_len actions) g2 (\<lambda>action_count.
            if action_count = 0
            then Break (g2\<lparr>game_log := game_log g2 @ [NoActionsAvailable]\<rparr>)
            else act decide forge phase actions action_count g2)))))"

text \<open>
  The \<^verbatim>\<open>while not state.get("game_over") and step < max_steps\<close> loop. The result is
  the exception that left the loop, if any, and the locals at that point.
\<close>

function run_loop ::
  "(nat \<Rightarrow> json \<Rightarrow> json result) \<Rightarrow> (nat \<Rightarrow> transport) \<Rightarrow> game \<Rightarrow> py_error option \<times> game" where
  "run_loop decide forge g =
     (case dict_get (state g) ''game_over'' JNull of
        Inl err \<Rightarrow> (Some err, g)
      | Inr over \<Rightarrow>
          if \<not> truthy over \<and> step g < max_steps then
            (case loop_body decide forge g of
               Raise err g' \<Rightarrow> (Some err, g')
             | Break g' \<Rightarrow> (None, g')
             | Continue g' \<Rightarrow> run_loop decide forge g')
          else (None, g))"
  by pat_completeness auto
termination
  by (relation "measure (\<lambda>(decide, forge, g). max_steps - step g)")
     (auto simp: loop_body_def act_def Let_def try_e_def split: sum.splits if_splits)

text \<open>
  The block after the loop that prints the winner and the life totals: whether it runs,
  or the exception of a \<^verbatim>\<open>.get\<close> on a player that is not a dictionary.
\<close>

definition game_over_summary :: "json \<Rightarrow> bool result" where
  "game_over_summary st =
     (if \<not> truthy st then Inr False
      else
        bind_e (dict_get st ''game_over'' JNull) (\<lambda>over.
        if \<not> truthy over then Inr False
        else
          bind_e (dict_get st ''player1'' (JObj [])) (\<lambda>p1.
          bind_e (dict_get st ''player2'' (JObj [])) (\<lambda>p2.
          bind_e (dict_get p1 ''name'' (JStr ''Player 1'')) (\<lambda>p1_name.
          bind_e (dict_get p2 ''name'' (JStr ''Player 2'')) (\<lambda>p2_name.
          Inr True))))))"

definition new_game :: "json \<Rightarrow> game" where
  "new_game st = \<lparr> state = st, turn = JInt 0, step = 0, game_log = [], posted = [], asked = 0 \<rparr>"

text \<open>
  \<^verbatim>\<open>run_game\<close>: the value returned (\<^const>\<open>JNull\<close> is \<^verbatim>\<open>None\<close>) or the exception, and
  the locals at the end. The scenario only fills the body of the reset request, and
  writing the log file is left out.
\<close>

definition run_game ::
  "(nat \<Rightarrow> json \<Rightarrow> json result) \<Rightarrow> (nat \<Rightarrow> transport) \<Rightarrow> json result \<times> game" where
  "run_game decide forge =
     (case forge_request (forge 0) of
        Inl err \<Rightarrow> (Inl err, new_game JNull)
      | Inr st \<Rightarrow>
          if \<not> truthy st then (Inr JNull, new_game st)
          else
            (case run_loop decide forge (new_game st) of
               (Some err, g) \<Rightarrow> (Inl err, g)
             | (None, g) \<Rightarrow> (bind_e (game_over_summary (state g)) (\<lambda>shown. Inr (state g)), g)))"

section \<open>Vocabulary of the statements\<close>

text \<open>
  A player entry as the engine sends it: a dictionary whose life total is an integer,
  or is missing and then counts as 20.
\<close>

fun player_life :: "json \<Rightarrow> int option" where
  "player_life (JObj kvs) =
     (case map_of kvs ''life'' of None \<Rightarrow> Some 20 | Some (JInt n) \<Rightarrow> Some n | Some v \<Rightarrow> None)"
| "player_life x = None"

definition has_life :: "json \<Rightarrow> bool" where
  "has_life p = (player_life p \<noteq> None)"

definition dead :: "json \<Rightarrow> bool" where
  "dead p = (case player_life p of Some l \<Rightarrow> l \<le> 0 | None \<Rightarrow> False)"

definition mk_player :: "int \<Rightarrow> json" where
  "mk_player l = JObj [(''life'', JInt l)]"

text \<open>A state with two players: the life of player 0 (self), then of player 1.\<close>

definition mk_state :: "int \<Rightarrow> int \<Rightarrow> json" where
  "mk_state l0 l1 = JObj [(''players'', JArr [mk_player l0, mk_player l1])]"

text \<open>
  A tenth of the life lost from \<open>before\<close> to \<open>after\<close>, as Python computes
  \<^verbatim>\<open>(before - after) * 0.1\<close>; zero when no life was lost.
\<close>

definition lost_tenth :: "int \<Rightarrow> int \<Rightarrow> pyfloat result" where
  "lost_tenth before after =
     (if after < before then times_tenth (PInt (before - after)) else Inr (Finite 0))"

text \<open>
  The last step of the dense reward on the current life totals of self and of the
  opponent: ten more when the opponent is at zero or less, otherwise ten less when
  self is.
\<close>

definition with_outcome :: "int \<Rightarrow> int \<Rightarrow> pyfloat \<Rightarrow> pyfloat" where
  "with_outcome c0 c1 r =
     (if c1 \<le> 0 then fadd r (Finite 10)
      else if c0 \<le> 0 then fsub r (Finite 10)
      else r)"

text \<open>
  The dense reward as the specification words it, on the life totals before and after
  the step: a tenth of the life each side lost, ten when the opponent's life first
  reaches zero or less, minus ten when one's own does.
\<close>

definition spec_dense_reward :: "int \<Rightarrow> int \<Rightarrow> int \<Rightarrow> int \<Rightarrow> pyfloat result" where
  "spec_dense_reward p0 c0 p1 c1 =
     bind_e (lost_tenth p1 c1) (\<lambda>a.
     bind_e (lost_tenth p0 c0) (\<lambda>b.
     Inr (fsub (fadd (fsub a b) (if 0 < p1 \<and> c1 \<le> 0 then Finite 10 else Finite 0))
            (if 0 < p0 \<and> c0 \<le> 0 then Finite 10 else Finite 0))))"

text \<open>
  The end of the game as the specification words it: a player at zero life or less,
  or the engine's \<^verbatim>\<open>game_over\<close> flag.
\<close>

definition reports_game_over :: "json \<Rightarrow> bool" where
  "reports_game_over st =
     (case dict_get st ''game_over'' (JBool False) of Inr v \<Rightarrow> truthy v | Inl err \<Rightarrow> False)"

definition spec_game_ended :: "json \<Rightarrow> json list \<Rightarrow> bool" where
  "spec_game_ended st players = (list_ex dead players \<or> reports_game_over st)"

subsection \<open>Concrete inputs\<close>

text \<open>The keyword arguments of \<^verbatim>\<open>sparse_reward_example\<close>.\<close>

definition sparse_example_kwargs :: "(string \<times> json) list" where
  "sparse_example_kwargs =
     [(''player1_is_human'', JBool True), (''player2_is_human'', JBool False),
      (''max_turns'', JInt 30), (''render_mode'', JStr ''human''),
      (''reward_mode'', JStr ''sparse'')]"

text \<open>
  An instance of the NumPy conversion for concrete runs: an integer in the 32-bit range
  is itself. The runs below convert nothing else.
\<close>

fun int32_ints :: "json \<Rightarrow> int result" where
  "int32_ints (JInt n) = (if - 2147483648 \<le> n \<and> n < 2147483648 then Inr n else Inl OverflowError)"
| "int32_ints x = Inl TypeError"

definition pass_action :: json where
  "pass_action = JObj [(''type'', JStr ''pass_priority'')]"

text \<open>
  A stuck engine behind the pipe: every state read is the same state of turn 1 with
  both players at 20, every action read the same list of actions. Reads alternate, the
  state first.
\<close>

definition stuck_state :: json where
  "stuck_state = JObj [(''turn'', JInt 1), (''players'', JArr [mk_player 20, mk_player 20])]"

definition steady_engine :: "json list \<Rightarrow> engine" where
  "steady_engine acts =
     \<lparr> on_write = (\<lambda>k. None),
       on_read = (\<lambda>n. if even n then Loaded stuck_state
                      else Loaded (JObj [(''actions'', JArr acts)])) \<rparr>"

text \<open>With the single action of passing priority.\<close>

definition stuck_engine :: engine where
  "stuck_engine = steady_engine [pass_action]"


text \<open>The environment after a reset against an engine.\<close>

definition env_after_reset :: "engine \<Rightarrow> env" where
  "env_after_reset eng = snd (ForgeEnv_reset int32_ints eng True (init_env []))"

text \<open>
  A state of the HTTP engine with one action, no \<^verbatim>\<open>game_over\<close>, and the engine that
  answers every request with it.
\<close>

definition http_state :: json where
  "http_state =
     JObj [(''turn'', JInt 1), (''phase'', JStr ''MAIN1''),
           (''possible_actions'', JObj [(''actions'', JArr [pass_action])])]"

definition stuck_forge :: "nat \<Rightarrow> transport" where
  "stuck_forge n = Body (Parsed http_state)"


text \<open>An engine whose responses are never JSON: garbage, or nothing before the timeout.\<close>

definition silent_engine :: engine where
  "silent_engine = \<lparr> on_write = (\<lambda>k. None), on_read = (\<lambda>n. LoadsRaises JSONDecodeError) \<rparr>"

text \<open>
  An engine whose every response is a line of opening brackets, a hundred thousand of
  them: \<^verbatim>\<open>json.loads\<close> gives up on the nesting with \<^verbatim>\<open>RecursionError\<close>.
\<close>

definition nesting_engine :: engine where
  "nesting_engine = \<lparr> on_write = (\<lambda>k. None), on_read = (\<lambda>n. LoadsRaises RecursionError) \<rparr>"

text \<open>An engine that has exited: every write to its pipe fails.\<close>

definition dead_engine :: engine where
  "dead_engine =
     \<lparr> on_write = (\<lambda>k. Some BrokenPipeError), on_read = (\<lambda>n. LoadsRaises JSONDecodeError) \<rparr>"







section \<open>Evaluating double arithmetic\<close>

lemma floor_rat_numeral: "\<lfloor>numeral a / numeral b :: rat\<rfloor> = numeral a div numeral b"
  by (metis floor_divide_of_int_eq of_int_numeral)

lemma floor_rat_numeral1: "\<lfloor>1 / numeral b :: rat\<rfloor> = 1 div numeral b"
  by (metis floor_divide_of_int_eq of_int_numeral of_int_1)

lemma ceiling_rat_numeral: "\<lceil>numeral a / numeral b :: rat\<rceil> = - (- numeral a div numeral b)"
  by (metis ceiling_divide_eq_div of_int_numeral)

lemma ceiling_rat_numeral1: "\<lceil>1 / numeral b :: rat\<rceil> = - (- 1 div numeral b)"
  by (metis ceiling_divide_eq_div of_int_numeral of_int_1)

lemma bitlen_numeral: "bitlen (numeral n) = bitlen (numeral n div 2) + 1"
  by (subst compute_bitlen) simp

lemma bitlen_one: "bitlen 1 = 1"
  by (simp add: bitlen_alt_def)

lemmas double_eval = round_double_def flog2_def pow2_def round_half_even_def tenth_def Let_def
  bitlen_numeral bitlen_one floor_rat_numeral floor_rat_numeral1 ceiling_rat_numeral
  ceiling_rat_numeral1

lemma fadd_zero_left: "fadd (Finite 0) x = x"
  by (cases x) simp_all

lemma fsub_zero_right: "fsub x (Finite 0) = x"
  by (cases x) (simp_all add: fsub_def)


text \<open>Integers from \<open>2\<^sup>1\<^sup>0\<^sup>2\<^sup>4\<close> on are too large for a double.\<close>

lemma flog2_lower: "1 \<le> a \<Longrightarrow> 2 ^ nat (flog2 a) \<le> a"
proof -
  assume a: "1 \<le> a"
  then have p: "0 < \<lfloor>a\<rfloor>"
    by simp
  from bitlen_bounds [OF p] have "(2::int) ^ nat (bitlen \<lfloor>a\<rfloor> - 1) \<le> \<lfloor>a\<rfloor>"
    by simp
  then have "of_int ((2::int) ^ nat (bitlen \<lfloor>a\<rfloor> - 1)) \<le> (of_int \<lfloor>a\<rfloor> :: rat)"
    by (simp only: of_int_le_iff)
  also have "\<dots> \<le> a"
    by simp
  finally show ?thesis
    using a by (simp add: flog2_def)
qed

lemma flog2_ge: "2 ^ n \<le> a \<Longrightarrow> int n \<le> flog2 a"
proof -
  assume h: "2 ^ n \<le> a"
  have "(1::rat) \<le> 2 ^ n"
    by simp
  with h have a: "1 \<le> a"
    by linarith
  then have p: "0 < \<lfloor>a\<rfloor>"
    by simp
  from h have "(2::int) ^ n \<le> \<lfloor>a\<rfloor>"
    by (simp add: le_floor_iff)
  also from bitlen_bounds [OF p] have "\<lfloor>a\<rfloor> < 2 ^ nat (bitlen \<lfloor>a\<rfloor>)"
    by simp
  finally have "n < nat (bitlen \<lfloor>a\<rfloor>)"
    by simp
  then show ?thesis
    using a by (simp add: flog2_def)
qed

lemma round_half_even_ge: "of_int k \<le> x \<Longrightarrow> k \<le> round_half_even x"
proof -
  assume "of_int k \<le> x"
  then have "k \<le> \<lfloor>x\<rfloor>"
    by (simp add: le_floor_iff)
  then show ?thesis
    by (simp add: round_half_even_def Let_def)
qed

lemma round_double_huge:
  assumes "2 ^ 1024 \<le> a"
  shows "round_double a = PosInf"
proof -
  have pos: "0 < a"
    using assms by (smt (verit) zero_less_power zero_less_numeral less_le_trans)
  have one: "1 \<le> a"
  proof -
    have "(1::rat) \<le> 2 ^ 1024" by simp
    with assms show ?thesis by linarith
  qed
  define e where "e = nat (flog2 a)"
  from flog2_ge [OF assms] have e: "1024 \<le> e" "flog2 a = int e"
    by (simp_all add: e_def)
  define q where "q = e - 52"
  from e have q: "e = q + 52" "max (flog2 a - 52) (- 1074) = int q"
    by (simp_all add: q_def)
  from flog2_lower [OF one] have low: "2 ^ e \<le> a"
    by (simp add: e_def)
  have "(of_int (2 ^ 52) :: rat) = 2 ^ e / 2 ^ q"
    by (simp add: q(1) power_add)
  also from low have "\<dots> \<le> a / 2 ^ q"
    by (simp add: divide_right_mono)
  finally have "2 ^ 52 \<le> round_half_even (a / 2 ^ q)"
    by (rule round_half_even_ge)
  then have "(of_int (2 ^ 52) :: rat) \<le> of_int (round_half_even (a / 2 ^ q))"
    by (simp only: of_int_le_iff)
  then have "(2 ^ 52 :: rat) * 2 ^ q \<le> of_int (round_half_even (a / 2 ^ q)) * 2 ^ q"
    by (simp add: mult_right_mono)
  moreover have "(2 ^ 1024 :: rat) \<le> 2 ^ 52 * 2 ^ q"
  proof -
    have "(2 ^ 1024 :: rat) \<le> 2 ^ e"
      using e(1) by (intro power_increasing) simp_all
    then show ?thesis
      by (simp add: q(1) power_add mult.commute)
  qed
  ultimately have big: "(2 ^ 1024 :: rat) \<le> of_int (round_half_even (a / 2 ^ q)) * 2 ^ q"
    by linarith
  from pos have "\<bar>a\<bar> = a" "a \<noteq> 0"
    by simp_all
  with big q(2) pos show ?thesis
    by (simp add: round_double_def Let_def pow2_def)
qed

lemma to_float_huge: "2 ^ 1024 \<le> n \<Longrightarrow> to_float (PInt n) = Inl OverflowError"
proof -
  assume "2 ^ 1024 \<le> n"
  then have "(of_int (2 ^ 1024) :: rat) \<le> of_int n"
    by (simp only: of_int_le_iff)
  then have "round_double (of_int n) = PosInf"
    by (intro round_double_huge) simp
  then show ?thesis
    by simp
qed

section \<open>The dense reward\<close>

lemma player_life_get:
  "player_life p = Some n \<Longrightarrow> dict_get p ''life'' (JInt 20) = Inr (JInt n)"
  by (cases p) (auto split: option.splits json.splits)

lemma py_lt_ints: "py_lt (JInt a) (JInt b) = Inr (a < b)"
  by (simp add: py_lt_def bind_e_def num_lt_def)

lemma py_le_ints: "py_le (JInt a) (JInt b) = Inr (a \<le> b)"
  by (simp add: py_le_def bind_e_def num_le_def)

lemma tenth_of_difference_ints:
  "tenth_of_difference (JInt a) (JInt b) = times_tenth (PInt (a - b))"
  by (simp add: tenth_of_difference_def bind_e_def)

lemma life_reward_ints:
  "life_reward (JInt p0) (JInt c0) (JInt p1) (JInt c1) =
     bind_e (lost_tenth p1 c1) (\<lambda>a.
     bind_e (lost_tenth p0 c0) (\<lambda>b.
     Inr (with_outcome c0 c1 (fsub a b))))"
  by (cases "times_tenth (PInt (p1 - c1))"; cases "times_tenth (PInt (p0 - c0))")
     (simp_all add: life_reward_def lost_tenth_def with_outcome_def bind_e_def py_lt_ints
       py_le_ints tenth_of_difference_ints fadd_zero_left fsub_zero_right)

lemma reward_of_lives:
  assumes "truthy previous" "truthy current"
    and "dict_get previous ''players'' two_empty_players = Inr (JArr (a0 # a1 # as))"
    and "dict_get current ''players'' two_empty_players = Inr (JArr (b0 # b1 # bs))"
    and "player_life a0 = Some p0" "player_life a1 = Some p1"
    and "player_life b0 = Some c0" "player_life b1 = Some c1"
  shows "calculate_reward previous current =
     bind_e (lost_tenth p1 c1) (\<lambda>a.
     bind_e (lost_tenth p0 c0) (\<lambda>b.
     Inr (with_outcome c0 c1 (fsub a b))))"
proof -
  from assms have "calculate_reward previous current =
      life_reward (JInt p0) (JInt c0) (JInt p1) (JInt c1)"
    by (simp add: calculate_reward_def bind_e_def life_at_def player_life_get)
  then show ?thesis
    by (simp only: life_reward_ints)
qed

lemma mk_state_reward:
  "calculate_reward (mk_state p0 p1) (mk_state c0 c1) =
     bind_e (lost_tenth p1 c1) (\<lambda>a.
     bind_e (lost_tenth p0 c0) (\<lambda>b.
     Inr (with_outcome c0 c1 (fsub a b))))"
  by (rule reward_of_lives [where as = "[]" and bs = "[]" and ?a0.0 = "mk_player p0"
        and ?a1.0 = "mk_player p1" and ?b0.0 = "mk_player c0" and ?b1.0 = "mk_player c1"])
     (simp_all add: mk_state_def mk_player_def)

lemma empty_state_reward:
  "\<not> truthy previous \<or> \<not> truthy current \<Longrightarrow> calculate_reward previous current = Inr (Finite 0)"
  by (auto simp: calculate_reward_def)

text \<open>The tenths of the life totals that the concrete runs lose.\<close>

lemma tenth_values:
  "times_tenth (PInt 1) = Inr (Finite tenth)"
  "times_tenth (PInt 2) = Inr (Finite (3602879701896397 / 18014398509481984))"
  "times_tenth (PInt 3) = Inr (Finite (1351079888211149 / 4503599627370496))"
  "times_tenth (PInt 5) = Inr (Finite (1 / 2))"
  "times_tenth (PInt 20) = Inr (Finite 2)"
  by (simp_all add: times_tenth_def bind_e_def double_eval)

text \<open>
  C2, as the code has it. The reward is 0.0 when the previous state is missing or empty
  or the current state is empty. For two states that are not empty and list at least
  two players with integer (or missing) life totals, the reward is computed in double
  arithmetic, in this order: a tenth of the life the opponent (player 1) lost, minus a
  tenth of the life self (player 0) lost, then plus 10 whenever the opponent's current
  life is 0 or less, and otherwise minus 10 whenever self's current life is 0 or less.
  A loss of life too large for a double raises \<^verbatim>\<open>OverflowError\<close>. The bonus does not
  ask whether the life was above 0 before, and the penalty is not applied together
  with the bonus.
\<close>

theorem dense_reward_formula:
  "(\<not> truthy previous \<or> \<not> truthy current
    \<longrightarrow> calculate_reward previous current = Inr (Finite 0)) \<and>
   (truthy previous \<and> truthy current \<and>
    dict_get previous ''players'' two_empty_players = Inr (JArr (a0 # a1 # as)) \<and>
    dict_get current ''players'' two_empty_players = Inr (JArr (b0 # b1 # bs)) \<and>
    player_life a0 = Some p0 \<and> player_life a1 = Some p1 \<and>
    player_life b0 = Some c0 \<and> player_life b1 = Some c1
    \<longrightarrow> calculate_reward previous current =
          bind_e (lost_tenth p1 c1) (\<lambda>a.
          bind_e (lost_tenth p0 c0) (\<lambda>b.
          Inr (if c1 \<le> 0 then fadd (fsub a b) (Finite 10)
               else if c0 \<le> 0 then fsub (fsub a b) (Finite 10)
               else fsub a b))))"
proof (intro conjI impI)
  assume "\<not> truthy previous \<or> \<not> truthy current"
  then show "calculate_reward previous current = Inr (Finite 0)"
    by (rule empty_state_reward)
next
  assume h: "truthy previous \<and> truthy current \<and>
    dict_get previous ''players'' two_empty_players = Inr (JArr (a0 # a1 # as)) \<and>
    dict_get current ''players'' two_empty_players = Inr (JArr (b0 # b1 # bs)) \<and>
    player_life a0 = Some p0 \<and> player_life a1 = Some p1 \<and>
    player_life b0 = Some c0 \<and> player_life b1 = Some c1"
  then have "calculate_reward previous current =
     bind_e (lost_tenth p1 c1) (\<lambda>a.
     bind_e (lost_tenth p0 c0) (\<lambda>b.
     Inr (with_outcome c0 c1 (fsub a b))))"
    by (intro reward_of_lives) auto
  then show "calculate_reward previous current =
          bind_e (lost_tenth p1 c1) (\<lambda>a.
          bind_e (lost_tenth p0 c0) (\<lambda>b.
          Inr (if c1 \<le> 0 then fadd (fsub a b) (Finite 10)
               else if c0 \<le> 0 then fsub (fsub a b) (Finite 10)
               else fsub a b)))"
    by (simp add: with_outcome_def)
qed

text \<open>
  No previous state, an empty current state, an empty previous state: each time the
  life totals of the other state differ from the defaults, and the reward is 0.0. From
  20 and 20 to 18 and 15 the reward is the double 0.3, from 20 to 17 on the
  opponent's side alone the double 0.30000000000000004, and a loss of
  \<open>10\<^sup>4\<^sup>0\<^sup>0 - 5\<close> life raises.
\<close>

theorem dense_reward_formula_witness:
  "calculate_reward JNull (mk_state 20 5) = Inr (Finite 0) \<and>
   calculate_reward (mk_state 30 25) (JObj []) = Inr (Finite 0) \<and>
   calculate_reward (JObj []) (mk_state 20 5) = Inr (Finite 0) \<and>
   calculate_reward (mk_state 20 20) (mk_state 18 15) =
     Inr (Finite (5404319552844595 / 18014398509481984)) \<and>
   calculate_reward (mk_state 20 20) (mk_state 20 17) =
     Inr (Finite (1351079888211149 / 4503599627370496)) \<and>
   calculate_reward (mk_state 20 (10 ^ 400)) (mk_state 20 5) = Inl OverflowError"
proof -
  have p: "player_life (mk_player l) = Some l" for l
    by (simp add: mk_player_def)
  have s: "truthy (mk_state l0 l1)"
    "dict_get (mk_state l0 l1) ''players'' two_empty_players =
       Inr (JArr (mk_player l0 # mk_player l1 # []))" for l0 l1
    by (simp_all add: mk_state_def)
  note t = dense_reward_formula [where as = "[]" and bs = "[]"]
  have big: "(2::int) ^ 1024 \<le> 10 ^ 400 - 5"
    by simp
  from t [of JNull "mk_state 20 5"]
  have "calculate_reward JNull (mk_state 20 5) = Inr (Finite 0)"
    by simp
  moreover from t [of "mk_state 30 25" "JObj []"]
  have "calculate_reward (mk_state 30 25) (JObj []) = Inr (Finite 0)"
    by simp
  moreover from t [of "JObj []" "mk_state 20 5"]
  have "calculate_reward (JObj []) (mk_state 20 5) = Inr (Finite 0)"
    by simp
  moreover from t [of "mk_state 20 20" "mk_state 18 15" "mk_player 20" "mk_player 20"
      "mk_player 18" "mk_player 15" 20 20 18 15] p s
  have "calculate_reward (mk_state 20 20) (mk_state 18 15) =
     Inr (Finite (5404319552844595 / 18014398509481984))"
    by (simp add: lost_tenth_def tenth_values bind_e_def fsub_def double_eval)
  moreover from t [of "mk_state 20 20" "mk_state 20 17" "mk_player 20" "mk_player 20"
      "mk_player 20" "mk_player 17" 20 20 20 17] p s
  have "calculate_reward (mk_state 20 20) (mk_state 20 17) =
     Inr (Finite (1351079888211149 / 4503599627370496))"
    by (simp add: lost_tenth_def tenth_values bind_e_def fsub_zero_right)
  moreover from t [of "mk_state 20 (10 ^ 400)" "mk_state 20 5" "mk_player 20"
      "mk_player (10 ^ 400)" "mk_player 20" "mk_player 5" 20 "10 ^ 400" 20 5] p s
    to_float_huge [OF big]
  have "calculate_reward (mk_state 20 (10 ^ 400)) (mk_state 20 5) = Inl OverflowError"
    by (simp add: lost_tenth_def times_tenth_def bind_e_def)
  ultimately show ?thesis
    by blast
qed

text \<open>
  C2 as stated fails when both life totals reach 0 in the same step, from 20 and 20:
  the specification's formula gives 2.0 - 2.0 + 10.0 - 10.0 = 0.0, the code
  2.0 - 2.0 + 10.0 = 10.0.
\<close>

theorem dense_reward_both_dead:
  "calculate_reward (mk_state 20 20) (mk_state 0 0) = Inr (Finite 10) \<and>
   spec_dense_reward 20 0 20 0 = Inr (Finite 0) \<and>
   calculate_reward (mk_state 20 20) (mk_state 0 0) \<noteq> spec_dense_reward 20 0 20 0"
  by (simp add: mk_state_reward spec_dense_reward_def lost_tenth_def tenth_values bind_e_def
      with_outcome_def fsub_def round_double_def)

text \<open>The bonus is paid again on a later step at which the opponent is still at 0.\<close>

lemma dense_reward_bonus_repeats:
  "calculate_reward (mk_state 20 0) (mk_state 20 0) = Inr (Finite 10) \<and>
   spec_dense_reward 20 20 0 0 = Inr (Finite 0)"
  by (simp add: mk_state_reward spec_dense_reward_def lost_tenth_def bind_e_def
      with_outcome_def fsub_def)






section \<open>Termination of the game, as the wrapper sees it\<close>

lemma any_dead_list_ex:
  "list_all has_life ps \<Longrightarrow> any_dead ps = Inr (list_ex dead ps)"
proof (induction ps)
  case Nil
  show ?case by simp
next
  case (Cons p ps)
  from Cons.prems obtain n where n: "player_life p = Some n"
    by (auto simp: has_life_def)
  from Cons have "any_dead ps = Inr (list_ex dead ps)"
    by simp
  moreover from n have "dead p = (n \<le> 0)"
    by (simp add: dead_def)
  ultimately show ?case
    using n by (simp add: bind_e_def player_life_get py_le_ints)
qed

text \<open>
  C5, as the code has it. For a state that is a dictionary whose players (none when the
  key is missing) are dictionaries with integer or missing life totals, the terminated
  flag is true exactly when the state is empty (which is also what a state response
  that does not parse becomes) or some listed player's life is 0 or below. The
  \<^verbatim>\<open>game_over\<close> flag of the engine plays no part.
\<close>

theorem terminated_iff_empty_or_dead:
  "list_all has_life ps \<Longrightarrow>
   dict_get (JObj kvs) ''players'' (JArr []) = Inr (JArr ps) \<Longrightarrow>
   is_terminated (JObj kvs) = Inr (kvs = [] \<or> list_ex dead ps)"
  by (auto simp: is_terminated_def bind_e_def any_dead_list_ex)

theorem terminated_iff_empty_or_dead_witness:
  "is_terminated (mk_state 20 0) = Inr True \<and>
   is_terminated (mk_state 20 3) = Inr False \<and>
   is_terminated (JObj []) = Inr True"
  using terminated_iff_empty_or_dead [of "[mk_player 20, mk_player 0]"
      "[(''players'', JArr [mk_player 20, mk_player 0])]"]
    terminated_iff_empty_or_dead [of "[mk_player 20, mk_player 3]"
      "[(''players'', JArr [mk_player 20, mk_player 3])]"]
    terminated_iff_empty_or_dead [of "[]" "[]"]
  by (simp add: mk_state_def mk_player_def has_life_def dead_def)

text \<open>
  C5 as stated fails on a state in which the engine reports \<^verbatim>\<open>game_over\<close> while both
  players are at 20: the game has ended in the claim's sense, and the flag is false.
\<close>

theorem terminated_ignores_game_over:
  "is_terminated (JObj [(''game_over'', JBool True),
                        (''players'', JArr [mk_player 20, mk_player 20])]) = Inr False \<and>
   spec_game_ended (JObj [(''game_over'', JBool True),
                          (''players'', JArr [mk_player 20, mk_player 20])])
     [mk_player 20, mk_player 20]"
  by (simp add: is_terminated_def bind_e_def mk_player_def spec_game_ended_def
      reports_game_over_def py_le_ints)

text \<open>The flag that \<^verbatim>\<open>step\<close> returns is the value of \<^verbatim>\<open>_is_terminated\<close> on the new state.\<close>

lemma step_terminated:
  "ForgeEnv_step int32 eng e action = (Inr r, e') \<Longrightarrow>
   is_terminated (current_state e') = Inr (terminated r)"
  by (auto simp: ForgeEnv_step_def step_outcome_def bind_e_def
      split: if_splits sum.splits prod.splits)

section \<open>Construction, and a step before any reset\<close>

text \<open>
  C1. The constructor has no \<^verbatim>\<open>reward_mode\<close> parameter: every call that passes one
  raises \<^verbatim>\<open>TypeError\<close>, so no environment with a sparse mode can be built. The one
  reward function pays 10.5 for the step that wins from 5 life, where the claim has 1.
\<close>

theorem reward_mode_rejected:
  "((''reward_mode'', v) \<in> set kwargs \<longrightarrow> ForgeEnv_init kwargs = Inl TypeError) \<and>
   calculate_reward (mk_state 20 5) (mk_state 20 0) = Inr (Finite (21 / 2))"
proof (intro conjI impI)
  assume "(''reward_mode'', v) \<in> set kwargs"
  then have "\<not> list_all (\<lambda>kv. fst kv \<in> set init_parameters) kwargs"
    by (auto simp: list_all_iff init_parameters_def intro!: bexI [of _ "(''reward_mode'', v)"])
  then show "ForgeEnv_init kwargs = Inl TypeError"
    by (simp add: ForgeEnv_init_def)
next
  show "calculate_reward (mk_state 20 5) (mk_state 20 0) = Inr (Finite (21 / 2))"
    by (simp add: mk_state_reward lost_tenth_def tenth_values bind_e_def with_outcome_def
        fsub_zero_right double_eval)
qed

text \<open>The call of \<^verbatim>\<open>sparse_reward_example\<close>.\<close>

theorem reward_mode_rejected_witness:
  "ForgeEnv_init sparse_example_kwargs = Inl TypeError"
  using reward_mode_rejected [of "JStr ''sparse''" sparse_example_kwargs]
  by (simp add: sparse_example_kwargs_def)

text \<open>
  C10. While there is no engine process, \<^verbatim>\<open>step\<close> raises \<^verbatim>\<open>RuntimeError\<close> and leaves
  the environment as it was: no line has been written to the pipe, no response has
  been read, no field has changed, and there is no result.
\<close>

theorem step_before_reset:
  "\<not> process e \<Longrightarrow> ForgeEnv_step int32 eng e action = (Inl RuntimeError, e)"
  by (simp add: ForgeEnv_step_def)

text \<open>Right after construction, and after a reset that could not start the engine.\<close>

theorem step_before_reset_witness:
  "ForgeEnv_init [] = Inr (init_env []) \<and>
   ForgeEnv_step int32_ints stuck_engine (init_env []) 0 = (Inl RuntimeError, init_env []) \<and>
   ForgeEnv_step int32_ints stuck_engine
     (snd (ForgeEnv_reset int32_ints stuck_engine False (init_env []))) 0 =
     (Inl RuntimeError, init_env [])"
  using step_before_reset [of "init_env []" int32_ints stuck_engine 0]
  by (simp add: ForgeEnv_init_def ForgeEnv_reset_def init_env_def)

lemma closed_env_has_no_process: "\<not> process (close_process eng e)"
  by (simp add: close_process_def)

section \<open>State responses that do not parse\<close>

lemma falsy_state_default_observation:
  "\<not> truthy cs \<Longrightarrow> get_observation int32 cs = Inr default_observation"
  by (simp add: get_observation_def)

text \<open>
  The path that the \<^verbatim>\<open>except\<close> clause covers: when both lines are written,
  \<^verbatim>\<open>json.loads\<close> rejects the state response with \<^verbatim>\<open>JSONDecodeError\<close> (the empty
  text included), and the actions response is rejected in the same way or is a
  dictionary, then \<^verbatim>\<open>_update_state\<close> returns, the state is the empty dictionary, and
  its observation is the default one: turn 0, phase code 0, both life totals 20, both
  hand sizes 0.
\<close>

lemma json_decode_error_default_observation:
  assumes "process e"
    and "on_write eng (length (sent e)) = None"
    and "on_write eng (Suc (length (sent e))) = None"
    and "on_read eng (nread e) = LoadsRaises JSONDecodeError"
    and "on_read eng (Suc (nread e)) = LoadsRaises JSONDecodeError \<or>
         on_read eng (Suc (nread e)) = Loaded (JObj kvs)"
  shows "fst (update_state eng e) = Inr () \<and>
     current_state (snd (update_state eng e)) = JObj [] \<and>
     get_observation int32 (current_state (snd (update_state eng e))) =
       Inr \<lparr> obs_turn = 0, obs_phase = 0, obs_active_player = JInt 0, obs_stack_size = 0,
             player_0_life = 20, player_1_life = 20,
             player_0_hand_size = 0, player_1_hand_size = 0 \<rparr>"
  using assms
  by (auto simp: update_state_def update_game_state_def update_actions_def send_command_def
      read_response_def get_observation_def default_observation_def)

lemma silent_engine_default_observation:
  "process e \<Longrightarrow>
   fst (update_state silent_engine e) = Inr () \<and>
   get_observation int32 (current_state (snd (update_state silent_engine e))) =
     Inr default_observation"
  using json_decode_error_default_observation [of e silent_engine "[]" int32]
  by (simp add: silent_engine_def default_observation_def get_observation_def)

text \<open>
  C7. The \<^verbatim>\<open>except\<close> clause names \<^verbatim>\<open>json.JSONDecodeError\<close> only. A state response
  that \<^verbatim>\<open>json.loads\<close> rejects with another exception (\<^verbatim>\<open>RecursionError\<close> for brackets
  nested too deep, \<^verbatim>\<open>ValueError\<close> for an integer of too many digits) is malformed as
  well, and its exception leaves \<^verbatim>\<open>_update_state\<close>: the \<^verbatim>\<open>get_state\<close> line has been
  written and the response read, the state is not replaced by the empty dictionary,
  the actions are not asked for, and there is no observation.
\<close>

theorem unparsed_response_raises:
  "process e \<Longrightarrow> on_write eng (length (sent e)) = None \<Longrightarrow>
   on_read eng (nread e) = LoadsRaises err \<Longrightarrow> err \<noteq> JSONDecodeError \<Longrightarrow>
   update_state eng e = (Inl err, e\<lparr>sent := sent e @ [GetState], nread := Suc (nread e)\<rparr>)"
  by (simp add: update_state_def update_game_state_def send_command_def read_response_def)

text \<open>
  After a reset against a working engine, the engine answers \<^verbatim>\<open>get_state\<close> with the
  line of brackets: \<^verbatim>\<open>RecursionError\<close> leaves \<^verbatim>\<open>_update_state\<close> and \<^verbatim>\<open>step\<close>, and
  the state is still the one of before.
\<close>

theorem unparsed_response_raises_witness:
  "update_state nesting_engine (env_after_reset stuck_engine) =
     (Inl RecursionError,
      (env_after_reset stuck_engine)\<lparr>sent := [GetState, PossibleActions, GetState],
                                      nread := 3\<rparr>) \<and>
   current_state (env_after_reset stuck_engine) = stuck_state \<and>
   fst (ForgeEnv_step int32_ints nesting_engine (env_after_reset stuck_engine) 0)
     = Inl RecursionError \<and>
   current_state (snd (ForgeEnv_step int32_ints nesting_engine (env_after_reset stuck_engine) 0))
     = stuck_state"
proof -
  have e: "process (env_after_reset stuck_engine)"
    "sent (env_after_reset stuck_engine) = [GetState, PossibleActions]"
    "nread (env_after_reset stuck_engine) = 2"
    "current_state (env_after_reset stuck_engine) = stuck_state"
    "current_actions (env_after_reset stuck_engine) = JArr [pass_action]"
    by (simp_all add: env_after_reset_def ForgeEnv_reset_def init_env_def kwarg_def
        update_state_def update_game_state_def update_actions_def read_response_def
        send_command_def stuck_engine_def steady_engine_def Let_def stuck_state_def
        get_observation_def bind_e_def two_empty_players_def mk_player_def life_at_def
        hand_size_at_def phase_map_def)
  have s: "truthy stuck_state" "py_copy stuck_state = Inr stuck_state"
    by (simp_all add: stuck_state_def)
  from unparsed_response_raises [of "env_after_reset stuck_engine" nesting_engine RecursionError]
  have u: "update_state nesting_engine (env_after_reset stuck_engine) =
     (Inl RecursionError,
      (env_after_reset stuck_engine)\<lparr>sent := [GetState, PossibleActions, GetState],
                                      nread := 3\<rparr>)"
    by (simp add: e nesting_engine_def)
  have "fst (ForgeEnv_step int32_ints nesting_engine (env_after_reset stuck_engine) 0)
      = Inl RecursionError \<and>
    current_state (snd (ForgeEnv_step int32_ints nesting_engine (env_after_reset stuck_engine) 0))
      = stuck_state"
    by (simp add: ForgeEnv_step_def step_command_def bind_e_def e s send_command_def
        update_state_def update_game_state_def read_response_def nesting_engine_def)
  with u e(4) show ?thesis
    by simp
qed

text \<open>
  The same holds for the exceptions of the pipe: the write of \<^verbatim>\<open>get_state\<close> to an
  engine that has exited raises \<^verbatim>\<open>BrokenPipeError\<close>, and so does the write of the
  action in \<^verbatim>\<open>step\<close>.
\<close>

lemma dead_engine_raises:
  "process e \<Longrightarrow> update_state dead_engine e = (Inl BrokenPipeError, e)"
  by (simp add: update_state_def update_game_state_def send_command_def dead_engine_def)

lemma not_a_dictionary_raises:
  "process e \<Longrightarrow> on_write eng (length (sent e)) = None \<Longrightarrow>
   on_read eng (nread e) = Loaded (JArr xs) \<Longrightarrow>
   fst (update_state eng e) = Inl AttributeError \<and>
   current_state (snd (update_state eng e)) = JArr xs"
  by (simp add: update_state_def update_game_state_def send_command_def read_response_def)

section \<open>The step ceiling of the agent loop\<close>

declare run_loop.simps [simp del]



























section \<open>Indices out of range, and no actions at all\<close>














section \<open>The remote policy's answers\<close>

lemma http_state_payload: "build_payload http_state = Inr ()"
  by (simp add: build_payload_def http_state_def bind_e_def pass_action_def)

text \<open>
  What the remote policy does as C8 says: a bare integer and the \<^verbatim>\<open>action_index\<close> or
  \<^verbatim>\<open>index\<close> field of an object are returned as they are, and a network error, a
  timeout, a body that is not JSON, an explicit null, and a value that \<^verbatim>\<open>int\<close> rejects
  with \<^verbatim>\<open>TypeError\<close> or \<^verbatim>\<open>ValueError\<close> all give 0.
\<close>

lemma policy_request_defaults:
  assumes "build_payload game_state = Inr ()"
  shows "policy_request ios game_state (Body (Parsed (JInt n))) = Inr (JInt n)"
    and "map_of kvs ''action_index'' = Some v \<Longrightarrow> v \<noteq> JNull \<Longrightarrow>
         policy_request ios game_state (Body (Parsed (JObj kvs))) = Inr v"
    and "map_of kvs ''action_index'' = None \<Longrightarrow> map_of kvs ''index'' = Some v \<Longrightarrow>
         v \<noteq> JNull \<Longrightarrow>
         policy_request ios game_state (Body (Parsed (JObj kvs))) = Inr v"
    and "map_of kvs ''action_index'' = Some JNull \<Longrightarrow>
         policy_request ios game_state (Body (Parsed (JObj kvs))) = Inr (JInt 0)"
    and "policy_request ios game_state (Raises URLError) = Inr (JInt 0)"
    and "policy_request ios game_state (Raises SocketTimeout) = Inr (JInt 0)"
    and "policy_request ios game_state (Body Unparseable) = Inr (JInt 0)"
    and "policy_request ios game_state (Body (Parsed JNull)) = Inr (JInt 0)"
    and "policy_request ios game_state (Body (Parsed (JArr xs))) = Inr (JInt 0)"
    and "policy_request ios game_state (Body (Parsed (JFloat NaN))) = Inr (JInt 0)"
  using assms
  by (simp_all add: policy_request_def bind_e_def policy_caught_def)

text \<open>
  C8. The body \<^verbatim>\<open>1e999\<close> (or \<^verbatim>\<open>Infinity\<close>) parses to a float infinity, which is
  neither a dictionary nor an integer; \<^verbatim>\<open>int\<close> of it raises \<^verbatim>\<open>OverflowError\<close>,
  which no \<^verbatim>\<open>except\<close> clause of \<^verbatim>\<open>policy_request\<close> names. The exception leaves the
  function: no index 0 is returned.
\<close>

theorem policy_infinity_raises:
  "build_payload game_state = Inr () \<Longrightarrow>
   policy_request ios game_state (Body (Parsed (JFloat PosInf))) = Inl OverflowError"
  by (simp add: policy_request_def bind_e_def policy_caught_def)

theorem policy_infinity_raises_witness:
  "build_payload http_state = Inr () \<and>
   policy_request (\<lambda>s. None) http_state (Body (Parsed (JFloat PosInf))) = Inl OverflowError \<and>
   policy_request (\<lambda>s. None) http_state (Body (Parsed (JFloat PosInf))) \<noteq> Inr (JInt 0)"
  using policy_infinity_raises [of http_state "\<lambda>s. None"] http_state_payload
  by simp

text \<open>The exception then leaves \<^verbatim>\<open>run_game\<close> as well.\<close>

lemma run_game_infinity_raises:
  "fst (run_game (\<lambda>n st. policy_request ios st (Body (Parsed (JFloat PosInf)))) stuck_forge)
     = Inl OverflowError"
proof -
  have l: "loop_body (\<lambda>n st. policy_request ios st (Body (Parsed (JFloat PosInf)))) stuck_forge
       (new_game http_state) =
     Raise OverflowError ((new_game http_state)\<lparr>step := 1, turn := JInt 1,
       game_log := [TurnHeader (JInt 1)], asked := 1\<rparr>)"
proof -
    have p: "policy_request ios http_state (Body (Parsed (JFloat PosInf))) = Inl OverflowError"
      by (simp add: policy_request_def bind_e_def policy_caught_def http_state_payload)
    have g: "dict_get http_state ''turn'' (JInt 0) = Inr (JInt 1)"
      "dict_get http_state ''phase'' (JStr ''?'') = Inr (JStr ''MAIN1'')"
      "possible_actions http_state = Inr (JArr [pass_action])"
      by (simp_all add: http_state_def possible_actions_def bind_e_def)
    show ?thesis
      using p g
      by (simp add: loop_body_def act_def Let_def try_e_def new_game_def py_eq_def)
  qed
  have "truthy http_state" "forge_request (stuck_forge 0) = Inr http_state"
    "dict_get http_state ''game_over'' JNull = Inr JNull"
    by (simp_all add: http_state_def stuck_forge_def)
  moreover have "step (new_game http_state) = 0" "state (new_game http_state) = http_state"
    by (simp_all add: new_game_def)
  ultimately show ?thesis
    using l
    by (simp add: run_game_def run_loop.simps [of _ _ "new_game http_state"] max_steps_def)
qed


end
